theory Spec2Isabelle
  imports Main "HOL-Library.Word"
begin

section \<open>MeshFunction.h: values attached to the entities of a mesh\<close>

text \<open>
  The header \<^verbatim>\<open>src/kernel/mesh/dolfin/MeshFunction.h\<close> declares the class template
  \<^verbatim>\<open>MeshFunction<T>\<close>: an array of \<^verbatim>\<open>T\<close>, one slot for each mesh entity of a fixed
  topological dimension, together with a pointer to the mesh. Every member function is
  embedded below as a HOL function on a record of the four private members.

  The type \<^verbatim>\<open>uint\<close> comes from \<^verbatim>\<open>dolfin/constants.h\<close>, which is not part of the
  sources at hand. It is an unsigned machine integer; its width is left open as the type
  parameter \<open>'w\<close>, so every result below holds for each width. The header does no
  arithmetic on \<^verbatim>\<open>uint\<close> values: it only stores and compares them, and uses them as
  array lengths and array indices (read through \<open>unat\<close>).
\<close>

subsection \<open>The collaborators: Mesh and MeshEntity\<close>

text \<open>
  Modelled from the spec: the classes \<^verbatim>\<open>Mesh\<close> and \<^verbatim>\<open>MeshEntity\<close> are only used by the
  header, their declarations are missing. The header calls \<^verbatim>\<open>mesh.size(dim)\<close> (the
  spec's \<^verbatim>\<open>entityCountAtDimension\<close>), \<^verbatim>\<open>entity.mesh()\<close>, \<^verbatim>\<open>entity.dim()\<close> and
  \<^verbatim>\<open>entity.index()\<close>, and it compares meshes by address
  (\<^verbatim>\<open>&entity.mesh() == _mesh\<close>). A mesh is therefore its address together with its
  table of entity counts; the header never writes to a mesh (\<^verbatim>\<open>const Mesh&\<close>).
\<close>

record (overloaded) 'w Mesh =
  address :: nat
  Mesh_size :: "'w word \<Rightarrow> 'w word"

record (overloaded) 'w MeshEntity =
  entity_mesh :: "'w Mesh"
  entity_dim :: "'w word"
  entity_index :: "'w word"

subsection \<open>The state of a MeshFunction\<close>

text \<open>
  The private members \<^verbatim>\<open>_values\<close>, \<^verbatim>\<open>_mesh\<close>, \<^verbatim>\<open>_dim\<close>, \<^verbatim>\<open>_size\<close>. A null pointer
  is \<open>None\<close>. A non-null \<^verbatim>\<open>_values\<close> is the array it points to, a non-null \<^verbatim>\<open>_mesh\<close>
  is the mesh it points to.
\<close>

record (overloaded) ('a, 'w) MeshFunction =
  f_values :: "'a list option"
  f_mesh :: "'w Mesh option"
  f_dim :: "'w word"
  f_size :: "'w word"

subsection \<open>Fatal errors\<close>

text \<open>
  Modelled from the spec: the macros \<^verbatim>\<open>dolfin_assert\<close> and \<^verbatim>\<open>dolfin_error\<close> are used
  by the header and defined elsewhere. Following the spec's error policy, a failed
  \<^verbatim>\<open>dolfin_assert\<close> and a call of \<^verbatim>\<open>dolfin_error\<close> stop the operation at once. The
  five errors name the five conditions the header tests:
  \<^item> \<open>NoMeshBound\<close>: \<^verbatim>\<open>if ( !_mesh ) dolfin_error(...)\<close> in \<^verbatim>\<open>init\<close>, and
    \<^verbatim>\<open>dolfin_assert(_mesh)\<close> in \<^verbatim>\<open>mesh()\<close>;
  \<^item> \<open>UseBeforeInit\<close>: \<^verbatim>\<open>dolfin_assert(_values)\<close>;
  \<^item> \<open>EntityMeshMismatch\<close>: \<^verbatim>\<open>dolfin_assert(&entity.mesh() == _mesh)\<close>;
  \<^item> \<open>DimensionMismatch\<close>: \<^verbatim>\<open>dolfin_assert(entity.dim() == _dim)\<close>;
  \<^item> \<open>IndexOutOfRange\<close>: \<^verbatim>\<open>dolfin_assert(entity.index() < _size)\<close> and
    \<^verbatim>\<open>dolfin_assert(index < _size)\<close>.

  A const member function returns \<open>error + result\<close>. A member function that writes
  to the object returns \<open>(error \<times> object) + object\<close>: on the left the error and the
  object as it was when the operation stopped, on the right the object after the call.
\<close>

datatype error =
  NoMeshBound | UseBeforeInit | EntityMeshMismatch | DimensionMismatch | IndexOutOfRange

definition dolfin_assert :: "bool \<Rightarrow> 'e \<Rightarrow> 'e + 'r \<Rightarrow> 'e + 'r" where
  "dolfin_assert check e rest = (if check then rest else Inl e)"

subsection \<open>Allocation\<close>

text \<open>
  \<^verbatim>\<open>new T[size]\<close> returns an array of \<^verbatim>\<open>size\<close> default-initialised elements: the
  value of the default constructor for a class type, an indeterminate value for a
  built-in type. What the new array holds is the parameter \<open>fresh\<close> of every \<^verbatim>\<open>init\<close>:
  \<open>fresh i\<close> is the content of slot \<open>i\<close> right after the allocation. The preceding
  \<^verbatim>\<open>delete [] _values\<close> releases the old array, which no member can reach afterwards.
\<close>

definition new_array :: "(nat \<Rightarrow> 'a) \<Rightarrow> 'w::len word \<Rightarrow> 'a list" where
  "new_array fresh n = map fresh [0..<unat n]"

subsection \<open>Constructors and accessors\<close>

text \<open>
  The accessors \<^verbatim>\<open>mesh()\<close>, \<^verbatim>\<open>dim()\<close>, \<^verbatim>\<open>size()\<close> and \<^verbatim>\<open>values()\<close> carry the
  suffix \<open>_mf\<close>, which keeps their names apart from the parameters \<^verbatim>\<open>mesh\<close> and
  \<^verbatim>\<open>dim\<close> of \<^verbatim>\<open>init\<close> and from the library's \<open>size\<close>.
\<close>

definition MeshFunction_empty :: "('a, 'w::len) MeshFunction" where
  "MeshFunction_empty = \<lparr>f_values = None, f_mesh = None, f_dim = 0, f_size = 0\<rparr>"

definition MeshFunction_on :: "'w::len Mesh \<Rightarrow> ('a, 'w) MeshFunction" where
  "MeshFunction_on mesh = \<lparr>f_values = None, f_mesh = Some mesh, f_dim = 0, f_size = 0\<rparr>"

definition mesh_mf :: "('a, 'w::len) MeshFunction \<Rightarrow> error + 'w Mesh" where
  "mesh_mf f = (case f_mesh f of None \<Rightarrow> Inl NoMeshBound | Some m \<Rightarrow> Inr m)"

definition dim_mf :: "('a, 'w::len) MeshFunction \<Rightarrow> 'w word" where
  "dim_mf f = f_dim f"

definition size_mf :: "('a, 'w::len) MeshFunction \<Rightarrow> 'w word" where
  "size_mf f = f_size f"

definition values_mf :: "('a, 'w::len) MeshFunction \<Rightarrow> 'a list option" where
  "values_mf f = f_values f"

subsection \<open>The four overloads of init\<close>

text \<open>
  \<^verbatim>\<open>init(const Mesh& mesh, uint dim, uint size)\<close> does the work: it stores the three
  arguments and replaces the array by a new one of \<^verbatim>\<open>size\<close> elements. The other three
  overloads call it with \<^verbatim>\<open>size(dim)\<close> of the mesh as the third argument;
  \<^verbatim>\<open>init(uint dim, uint size)\<close> does not use its own \<^verbatim>\<open>size\<close>.
\<close>

definition init_mesh_dim_size ::
  "(nat \<Rightarrow> 'a) \<Rightarrow> ('a, 'w::len) MeshFunction \<Rightarrow> 'w Mesh \<Rightarrow> 'w word \<Rightarrow> 'w word
     \<Rightarrow> ('a, 'w) MeshFunction" where
  "init_mesh_dim_size fresh f mesh dim sz =
     f\<lparr>f_mesh := Some mesh, f_dim := dim, f_size := sz,
       f_values := Some (new_array fresh sz)\<rparr>"

definition init_mesh_dim ::
  "(nat \<Rightarrow> 'a) \<Rightarrow> ('a, 'w::len) MeshFunction \<Rightarrow> 'w Mesh \<Rightarrow> 'w word
     \<Rightarrow> ('a, 'w) MeshFunction" where
  "init_mesh_dim fresh f mesh dim =
     init_mesh_dim_size fresh f mesh dim (Mesh_size mesh dim)"

definition init_dim ::
  "(nat \<Rightarrow> 'a) \<Rightarrow> ('a, 'w::len) MeshFunction \<Rightarrow> 'w word
     \<Rightarrow> (error \<times> ('a, 'w) MeshFunction) + ('a, 'w) MeshFunction" where
  "init_dim fresh f dim =
     (case f_mesh f of
        None \<Rightarrow> Inl (NoMeshBound, f)
      | Some m \<Rightarrow> Inr (init_mesh_dim_size fresh f m dim (Mesh_size m dim)))"

definition init_dim_size ::
  "(nat \<Rightarrow> 'a) \<Rightarrow> ('a, 'w::len) MeshFunction \<Rightarrow> 'w word \<Rightarrow> 'w word
     \<Rightarrow> (error \<times> ('a, 'w) MeshFunction) + ('a, 'w) MeshFunction" where
  "init_dim_size fresh f dim sz =
     (case f_mesh f of
        None \<Rightarrow> Inl (NoMeshBound, f)
      | Some m \<Rightarrow> Inr (init_mesh_dim_size fresh f m dim (Mesh_size m dim)))"

subsection \<open>Access\<close>

text \<open>
  \<^verbatim>\<open>&entity.mesh() == _mesh\<close> compares two addresses; a null \<^verbatim>\<open>_mesh\<close> equals the
  address of no mesh.
\<close>

definition same_mesh :: "'w::len Mesh \<Rightarrow> 'w Mesh option \<Rightarrow> bool" where
  "same_mesh m p = (case p of None \<Rightarrow> False | Some m' \<Rightarrow> address m = address m')"

text \<open>
  The four assertions shared by \<^verbatim>\<open>get\<close> and both \<^verbatim>\<open>operator()\<close>, in the order of
  the source; \<open>rest\<close> is the \<^verbatim>\<open>return\<close> statement, given the array.
\<close>

definition checked_entity ::
  "('a, 'w::len) MeshFunction \<Rightarrow> 'w MeshEntity \<Rightarrow> ('a list \<Rightarrow> 'r) \<Rightarrow> error + 'r" where
  "checked_entity f entity rest =
     (case f_values f of
        None \<Rightarrow> Inl UseBeforeInit
      | Some vs \<Rightarrow>
          dolfin_assert (same_mesh (entity_mesh entity) (f_mesh f)) EntityMeshMismatch
         (dolfin_assert (entity_dim entity = f_dim f) DimensionMismatch
         (dolfin_assert (entity_index entity < f_size f) IndexOutOfRange
         (Inr (rest vs)))))"

text \<open>\<^verbatim>\<open>T get(const MeshEntity& entity) const\<close> returns a copy of the slot.\<close>

definition get :: "('a, 'w::len) MeshFunction \<Rightarrow> 'w MeshEntity \<Rightarrow> error + 'a" where
  "get f entity = checked_entity f entity (\<lambda>vs. vs ! unat (entity_index entity))"

text \<open>
  \<^verbatim>\<open>T& operator() (MeshEntity& entity)\<close> and its const twin return a reference to the
  slot \<^verbatim>\<open>_values[entity.index()]\<close>. A reference into the array is the number of its
  slot; \<open>deref\<close> reads through it and \<open>assign\<close> writes through it.
\<close>

datatype slot_ref = Slot nat

definition operator_call ::
  "('a, 'w::len) MeshFunction \<Rightarrow> 'w MeshEntity \<Rightarrow> error + slot_ref" where
  "operator_call f entity = checked_entity f entity (\<lambda>vs. Slot (unat (entity_index entity)))"

definition operator_call_const ::
  "('a, 'w::len) MeshFunction \<Rightarrow> 'w MeshEntity \<Rightarrow> error + slot_ref" where
  "operator_call_const f entity =
     checked_entity f entity (\<lambda>vs. Slot (unat (entity_index entity)))"

fun deref :: "('a, 'w::len) MeshFunction \<Rightarrow> slot_ref \<Rightarrow> 'a option" where
  "deref f (Slot i) =
     (case f_values f of
        None \<Rightarrow> None
      | Some vs \<Rightarrow> if i < length vs then Some (vs ! i) else None)"

fun assign :: "('a, 'w::len) MeshFunction \<Rightarrow> slot_ref \<Rightarrow> 'a \<Rightarrow> ('a, 'w) MeshFunction option" where
  "assign f (Slot i) v =
     (case f_values f of
        None \<Rightarrow> None
      | Some vs \<Rightarrow> if i < length vs then Some (f\<lparr>f_values := Some (vs[i := v])\<rparr>) else None)"

text \<open>\<^verbatim>\<open>void set(uint index, const T& value)\<close> writes one slot.\<close>

definition set_mf ::
  "('a, 'w::len) MeshFunction \<Rightarrow> 'w word \<Rightarrow> 'a
     \<Rightarrow> (error \<times> ('a, 'w) MeshFunction) + ('a, 'w) MeshFunction" where
  "set_mf f index v =
     (case f_values f of
        None \<Rightarrow> Inl (UseBeforeInit, f)
      | Some vs \<Rightarrow>
          dolfin_assert (index < f_size f) (IndexOutOfRange, f)
         (Inr (f\<lparr>f_values := Some (vs[unat index := v])\<rparr>)))"

subsection \<open>States the member functions can produce\<close>

text \<open>
  The array \<^verbatim>\<open>_values\<close> is either null or has exactly \<^verbatim>\<open>_size\<close> elements. Both
  constructors establish this and every member function keeps it, so it holds of every
  object a program can have. An object is initialised when moreover the array is there.
\<close>

definition consistent :: "('a, 'w::len) MeshFunction \<Rightarrow> bool" where
  "consistent f =
     (case f_values f of None \<Rightarrow> True | Some vs \<Rightarrow> length vs = unat (f_size f))"

definition initialised :: "('a, 'w::len) MeshFunction \<Rightarrow> bool" where
  "initialised f =
     (case f_values f of None \<Rightarrow> False | Some vs \<Rightarrow> length vs = unat (f_size f))"

text \<open>An entity that passes the three checks of \<^verbatim>\<open>get\<close> on \<open>f\<close>.\<close>

definition valid_entity :: "('a, 'w::len) MeshFunction \<Rightarrow> 'w MeshEntity \<Rightarrow> bool" where
  "valid_entity f entity =
     (same_mesh (entity_mesh entity) (f_mesh f) \<and> entity_dim entity = f_dim f
      \<and> entity_index entity < f_size f)"

subsection \<open>Concrete objects for the examples\<close>

text \<open>
  A mesh at address 1 with 5 cells (dimension 2), 9 vertices and no other entities, a
  second mesh with the same counts at address 2, and the cell of index 3 of each.
\<close>

definition mesh5 :: "32 Mesh" where
  "mesh5 = \<lparr>address = 1, Mesh_size = (\<lambda>d. if d = 2 then 5 else if d = 0 then 9 else 0)\<rparr>"

definition mesh5' :: "32 Mesh" where
  "mesh5' = mesh5\<lparr>address := 2\<rparr>"

definition cell3 :: "32 MeshEntity" where
  "cell3 = \<lparr>entity_mesh = mesh5, entity_dim = 2, entity_index = 3\<rparr>"

definition cell3' :: "32 MeshEntity" where
  "cell3' = cell3\<lparr>entity_mesh := mesh5'\<rparr>"

definition vertex3 :: "32 MeshEntity" where
  "vertex3 = cell3\<lparr>entity_dim := 0\<rparr>"

definition cell7 :: "32 MeshEntity" where
  "cell7 = cell3\<lparr>entity_index := 7\<rparr>"

text \<open>
  An element type whose default constructor gives \<open>x\<close>: every slot of a new array
  holds \<open>x\<close>.
\<close>

definition fill :: "'a \<Rightarrow> nat \<Rightarrow> 'a" where
  "fill x i = x"

text \<open>The map over the cells of \<open>mesh5\<close>, after \<^verbatim>\<open>init(mesh5, 2)\<close>.\<close>

definition cells5 :: "(int, 32) MeshFunction" where
  "cells5 = init_mesh_dim (fill 0) MeshFunction_empty mesh5 2"

subsection \<open>The scenario of re-initialisation\<close>

text \<open>
  \<^verbatim>\<open>init(mesh, dim)\<close> on a new object, \<^verbatim>\<open>set(index, x)\<close>, a second
  \<^verbatim>\<open>init(mesh, dim)\<close>, and then \<^verbatim>\<open>get(entity)\<close>. The two allocations have their own
  contents \<open>fresh1\<close> and \<open>fresh2\<close>.
\<close>

definition reinit_scenario ::
  "(nat \<Rightarrow> 'a) \<Rightarrow> (nat \<Rightarrow> 'a) \<Rightarrow> 'w::len Mesh \<Rightarrow> 'w word \<Rightarrow> 'w word \<Rightarrow> 'a
     \<Rightarrow> 'w MeshEntity \<Rightarrow> error + 'a" where
  "reinit_scenario fresh1 fresh2 mesh dim index x entity =
     (case set_mf (init_mesh_dim fresh1 MeshFunction_empty mesh dim) index x of
        Inl (e, f) \<Rightarrow> Inl e
      | Inr f \<Rightarrow> get (init_mesh_dim fresh2 f mesh dim) entity)"

section \<open>The invariant\<close>

lemma length_new_array: "length (new_array fresh n) = unat n"
  by (simp add: new_array_def)

lemma nth_new_array: "i < unat n \<Longrightarrow> new_array fresh n ! i = fresh i"
  by (simp add: new_array_def)

lemma consistent_empty: "consistent MeshFunction_empty"
  by (simp add: consistent_def MeshFunction_empty_def)

lemma consistent_on: "consistent (MeshFunction_on m)"
  by (simp add: consistent_def MeshFunction_on_def)

lemma initialised_init_mesh_dim_size: "initialised (init_mesh_dim_size fresh f m d n)"
  by (simp add: initialised_def init_mesh_dim_size_def length_new_array)

lemma initialised_init_mesh_dim: "initialised (init_mesh_dim fresh f m d)"
  by (simp add: init_mesh_dim_def initialised_init_mesh_dim_size)

lemma initialised_init_dim: "init_dim fresh f d = Inr f' \<Longrightarrow> initialised f'"
  by (auto simp: init_dim_def initialised_init_mesh_dim_size split: option.splits)

lemma initialised_init_dim_size: "init_dim_size fresh f d n = Inr f' \<Longrightarrow> initialised f'"
  by (auto simp: init_dim_size_def initialised_init_mesh_dim_size split: option.splits)

lemma initialised_consistent: "initialised f \<Longrightarrow> consistent f"
  by (auto simp: initialised_def consistent_def split: option.splits)

lemma consistent_set_mf: "consistent f \<Longrightarrow> set_mf f i v = Inr f' \<Longrightarrow> consistent f'"
  by (auto simp: set_mf_def consistent_def dolfin_assert_def split: option.splits if_splits)

lemma initialised_set_mf: "initialised f \<Longrightarrow> set_mf f i v = Inr f' \<Longrightarrow> initialised f'"
  by (auto simp: set_mf_def initialised_def dolfin_assert_def split: option.splits if_splits)

lemma consistent_assign: "consistent f \<Longrightarrow> assign f r v = Some f' \<Longrightarrow> consistent f'"
  by (cases r) (auto simp: consistent_def split: option.splits if_splits)


section \<open>Sizing by init\<close>

text \<open>
  Claim C2. For every mesh \<open>m\<close> and dimension \<open>d\<close>, after \<^verbatim>\<open>init(m, d)\<close> the size of
  the map is the number of entities of dimension \<open>d\<close> of \<open>m\<close>, and the array has that
  many slots. The same holds after \<^verbatim>\<open>init(d)\<close> on a map \<open>g\<close> whose mesh pointer
  points to \<open>m\<close>; that call succeeds.
\<close>

theorem init_size_is_entity_count:
  "size_mf (init_mesh_dim fresh f m d) = Mesh_size m d
   \<and> map_option length (values_mf (init_mesh_dim fresh f m d)) = Some (unat (Mesh_size m d))
   \<and> (f_mesh g = Some m \<longrightarrow>
        (\<exists>g'. init_dim fresh g d = Inr g' \<and> size_mf g' = Mesh_size m d
          \<and> map_option length (values_mf g') = Some (unat (Mesh_size m d))))"
  by (simp add: init_mesh_dim_def init_dim_def init_mesh_dim_size_def size_mf_def
      values_mf_def length_new_array)

theorem init_size_is_entity_count_witness:
  "size_mf (init_mesh_dim (fill (0::int)) MeshFunction_empty mesh5 2) = 5
   \<and> f_mesh (MeshFunction_on mesh5 :: (int, 32) MeshFunction) = Some mesh5
   \<and> (\<exists>g'. init_dim (fill (0::int)) (MeshFunction_on mesh5) 2 = Inr g' \<and> size_mf g' = 5
         \<and> map_option length (values_mf g') = Some 5)"
  using init_size_is_entity_count
    [of "fill (0::int)" MeshFunction_empty mesh5 2 "MeshFunction_on mesh5"]
  by (simp add: MeshFunction_on_def mesh5_def)


text \<open>
  Claim C1, as stated: \<^verbatim>\<open>init(m, d, requestedSize)\<close> ignores \<open>requestedSize\<close> and yields
  the entity count of the mesh as size. It fails on the mesh with 5 cells and the
  requested size 3: the size is then 3.
\<close>

theorem init_requested_size_counterexample:
  "(3::32 word) \<noteq> Mesh_size mesh5 2
   \<and> size_mf (init_mesh_dim_size (fill (0::int)) MeshFunction_empty mesh5 2 3) = 3
   \<and> size_mf (init_mesh_dim_size (fill (0::int)) MeshFunction_empty mesh5 2 3)
       \<noteq> Mesh_size mesh5 2"
  by (simp add: init_mesh_dim_size_def size_mf_def mesh5_def)

text \<open>
  Claim C1, amended. For every mesh \<open>m\<close>, dimension \<open>d\<close> and requested size \<open>n\<close>,
  \<^verbatim>\<open>init(m, d, n)\<close> binds the map to \<open>m\<close> and \<open>d\<close> and yields the size \<open>n\<close> with an
  array of \<open>n\<close> slots: the requested size is used, the mesh is not asked for its count.
\<close>

theorem init_mesh_dim_size_uses_requested_size:
  "size_mf (init_mesh_dim_size fresh f m d n) = n
   \<and> map_option length (values_mf (init_mesh_dim_size fresh f m d n)) = Some (unat n)
   \<and> mesh_mf (init_mesh_dim_size fresh f m d n) = Inr m
   \<and> dim_mf (init_mesh_dim_size fresh f m d n) = d"
  by (simp add: init_mesh_dim_size_def size_mf_def values_mf_def mesh_mf_def dim_mf_def
      length_new_array)

text \<open>
  Claim C8. On a map whose mesh pointer points to \<open>m\<close>, \<^verbatim>\<open>init(d, requestedSize)\<close>
  succeeds and sizes the map and its array to the number of entities of dimension \<open>d\<close>
  of \<open>m\<close>, whatever \<open>requestedSize\<close> is; it does what \<^verbatim>\<open>init(d)\<close> does.
\<close>

theorem init_dim_size_ignores_requested_size:
  assumes "f_mesh f = Some m"
  shows "(\<exists>f'. init_dim_size fresh f d n = Inr f' \<and> size_mf f' = Mesh_size m d
            \<and> map_option length (values_mf f') = Some (unat (Mesh_size m d)))
         \<and> init_dim_size fresh f d n = init_dim fresh f d"
  using assms
  by (simp add: init_dim_size_def init_dim_def init_mesh_dim_size_def size_mf_def
      values_mf_def length_new_array)

theorem init_dim_size_ignores_requested_size_witness:
  "f_mesh (MeshFunction_on mesh5 :: (int, 32) MeshFunction) = Some mesh5
   \<and> (3::32 word) \<noteq> Mesh_size mesh5 2
   \<and> (\<exists>f'. init_dim_size (fill (0::int)) (MeshFunction_on mesh5) 2 3 = Inr f'
          \<and> size_mf f' = 5 \<and> map_option length (values_mf f') = Some 5)"
proof -
  have bound: "f_mesh (MeshFunction_on mesh5 :: (int, 32) MeshFunction) = Some mesh5"
    by (simp add: MeshFunction_on_def)
  have count: "Mesh_size mesh5 2 = 5"
    by (simp add: mesh5_def)
  note sized = init_dim_size_ignores_requested_size
    [OF bound, of "fill (0::int)" 2 3, THEN conjunct1]
  show ?thesis
    using sized bound by (simp add: count)
qed

text \<open>
  Claim C9. On a map whose mesh pointer is null (no mesh was ever given to it),
  \<^verbatim>\<open>init(dim)\<close> and \<^verbatim>\<open>init(dim, requestedSize)\<close> stop with the NoMesh error, and the
  object is as it was before the call.
\<close>

theorem init_without_mesh_fails:
  assumes "f_mesh f = None"
  shows "init_dim fresh f d = Inl (NoMeshBound, f)
         \<and> init_dim_size fresh f d n = Inl (NoMeshBound, f)"
  using assms by (simp add: init_dim_def init_dim_size_def)

theorem init_without_mesh_fails_witness:
  "f_mesh (MeshFunction_empty :: (int, 32) MeshFunction) = None
   \<and> init_dim (fill (0::int)) (MeshFunction_empty :: (int, 32) MeshFunction) 2
       = Inl (NoMeshBound, MeshFunction_empty)
   \<and> init_dim_size (fill (0::int)) (MeshFunction_empty :: (int, 32) MeshFunction) 2 3
       = Inl (NoMeshBound, MeshFunction_empty)"
proof -
  have unbound: "f_mesh (MeshFunction_empty :: (int, 32) MeshFunction) = None"
    by (simp add: MeshFunction_empty_def)
  from init_without_mesh_fails [OF unbound, of "fill (0::int)" 2 3] unbound
  show ?thesis by simp
qed


section \<open>Access\<close>

lemma checked_entity_unfold:
  "f_values f = Some vs \<Longrightarrow>
   checked_entity f e rest =
     (if \<not> same_mesh (entity_mesh e) (f_mesh f) then Inl EntityMeshMismatch
      else if entity_dim e \<noteq> f_dim f then Inl DimensionMismatch
      else if \<not> entity_index e < f_size f then Inl IndexOutOfRange
      else Inr (rest vs))"
  by (simp add: checked_entity_def dolfin_assert_def)

lemma initialised_values: "initialised f \<Longrightarrow> \<exists>vs. f_values f = Some vs \<and> length vs = unat (f_size f)"
  by (cases "f_values f") (simp_all add: initialised_def)

lemma set_mf_in_range:
  "f_values f = Some vs \<Longrightarrow> i < f_size f \<Longrightarrow>
   set_mf f i v = Inr (f\<lparr>f_values := Some (vs[unat i := v])\<rparr>)"
  by (simp add: set_mf_def dolfin_assert_def)

lemma unat_neq: "(j::'w::len word) \<noteq> i \<Longrightarrow> unat j \<noteq> unat i"
  by (simp add: word_unat_eq_iff)

lemma initialised_cells5: "initialised cells5"
  by (simp add: cells5_def initialised_init_mesh_dim)

lemma cells5_fields:
  "f_values cells5 = Some [0, 0, 0, 0, 0]" "f_mesh cells5 = Some mesh5"
  "f_dim cells5 = 2" "f_size cells5 = 5"
  by (simp_all add: cells5_def init_mesh_dim_def init_mesh_dim_size_def new_array_def
      mesh5_def fill_def upt_conv_Cons)

text \<open>
  Claim C5. On an object whose array pointer is null, as it is from either constructor
  until the first \<^verbatim>\<open>init\<close>, \<^verbatim>\<open>get\<close>, both \<^verbatim>\<open>operator()\<close> and \<^verbatim>\<open>set\<close> stop with
  UseBeforeInit, whatever their arguments are; \<^verbatim>\<open>set\<close> leaves the object as it was.
\<close>

theorem access_before_init_fails:
  assumes "f_values f = None"
  shows "get f e = Inl UseBeforeInit
         \<and> operator_call f e = Inl UseBeforeInit
         \<and> operator_call_const f e = Inl UseBeforeInit
         \<and> set_mf f i v = Inl (UseBeforeInit, f)"
  using assms
  by (simp add: get_def operator_call_def operator_call_const_def checked_entity_def
      set_mf_def)

theorem access_before_init_fails_witness:
  "f_values (MeshFunction_on mesh5 :: (int, 32) MeshFunction) = None
   \<and> f_values (MeshFunction_empty :: (int, 32) MeshFunction) = None
   \<and> get (MeshFunction_on mesh5 :: (int, 32) MeshFunction) cell3 = Inl UseBeforeInit
   \<and> operator_call (MeshFunction_on mesh5 :: (int, 32) MeshFunction) cell3
       = Inl UseBeforeInit
   \<and> operator_call_const (MeshFunction_on mesh5 :: (int, 32) MeshFunction) cell3
       = Inl UseBeforeInit
   \<and> set_mf (MeshFunction_on mesh5 :: (int, 32) MeshFunction) 3 42
       = Inl (UseBeforeInit, MeshFunction_on mesh5)"
proof -
  have null: "f_values (MeshFunction_on mesh5 :: (int, 32) MeshFunction) = None"
    by (simp add: MeshFunction_on_def)
  have null': "f_values (MeshFunction_empty :: (int, 32) MeshFunction) = None"
    by (simp add: MeshFunction_empty_def)
  from access_before_init_fails [OF null, of cell3 3 42] null null'
  show ?thesis by simp
qed

text \<open>
  Claim C6. On an initialised map, \<^verbatim>\<open>get(entity)\<close> and both \<^verbatim>\<open>operator()\<close> compare
  the address of the entity's mesh with the mesh pointer, the entity's dimension with
  the dimension of the map, and the entity's index with the size, in this order. The
  first check that fails stops the call with EntityMeshMismatch, DimensionMismatch or
  IndexOutOfRange respectively. When all three hold, \<^verbatim>\<open>get\<close> returns the value
  stored at the entity's index, and \<^verbatim>\<open>operator()\<close> returns a reference to that slot,
  through which the same value is read.
\<close>

theorem get_validates_entity:
  assumes "initialised f" and "f_values f = Some vs"
  shows "get f e =
           (if \<not> same_mesh (entity_mesh e) (f_mesh f) then Inl EntityMeshMismatch
            else if entity_dim e \<noteq> dim_mf f then Inl DimensionMismatch
            else if \<not> entity_index e < size_mf f then Inl IndexOutOfRange
            else Inr (vs ! unat (entity_index e)))
         \<and> operator_call f e =
           (if \<not> same_mesh (entity_mesh e) (f_mesh f) then Inl EntityMeshMismatch
            else if entity_dim e \<noteq> dim_mf f then Inl DimensionMismatch
            else if \<not> entity_index e < size_mf f then Inl IndexOutOfRange
            else Inr (Slot (unat (entity_index e))))
         \<and> operator_call_const f e = operator_call f e
         \<and> (entity_index e < size_mf f \<longrightarrow>
              deref f (Slot (unat (entity_index e))) = Some (vs ! unat (entity_index e)))"
proof -
  from assms have len: "length vs = unat (f_size f)"
    by (simp add: initialised_def)
  have "unat (entity_index e) < length vs" if "entity_index e < size_mf f"
    using that len by (simp add: size_mf_def word_less_nat_alt)
  with assms(2) show ?thesis
    by (simp add: get_def operator_call_def operator_call_const_def
        checked_entity_unfold dim_mf_def size_mf_def)
qed

theorem get_validates_entity_witness:
  "initialised cells5 \<and> f_values cells5 = Some [0, 0, 0, 0, 0]
   \<and> get cells5 cell3 = Inr 0
   \<and> get cells5 cell3' = Inl EntityMeshMismatch
   \<and> get cells5 vertex3 = Inl DimensionMismatch
   \<and> get cells5 cell7 = Inl IndexOutOfRange
   \<and> operator_call cells5 cell3 = Inr (Slot 3)
   \<and> operator_call cells5 cell3' = Inl EntityMeshMismatch
   \<and> operator_call cells5 vertex3 = Inl DimensionMismatch
   \<and> operator_call cells5 cell7 = Inl IndexOutOfRange
   \<and> deref cells5 (Slot 3) = Some 0"
proof -
  note checks = get_validates_entity [OF initialised_cells5 cells5_fields(1)]
  have same: "same_mesh mesh5 (Some mesh5)" and other: "\<not> same_mesh mesh5' (Some mesh5)"
    by (simp_all add: same_mesh_def mesh5'_def mesh5_def)
  have a: "get cells5 cell3 = Inr 0 \<and> operator_call cells5 cell3 = Inr (Slot 3)
           \<and> deref cells5 (Slot 3) = Some 0"
    using checks [of cell3] same
    by (simp add: cell3_def cells5_fields dim_mf_def size_mf_def)
  have b: "get cells5 cell3' = Inl EntityMeshMismatch
           \<and> operator_call cells5 cell3' = Inl EntityMeshMismatch"
    using checks [of cell3'] other
    by (simp add: cell3'_def cell3_def cells5_fields dim_mf_def size_mf_def)
  have c: "get cells5 vertex3 = Inl DimensionMismatch
           \<and> operator_call cells5 vertex3 = Inl DimensionMismatch"
    using checks [of vertex3] same
    by (simp add: vertex3_def cell3_def cells5_fields dim_mf_def size_mf_def)
  have d: "get cells5 cell7 = Inl IndexOutOfRange
           \<and> operator_call cells5 cell7 = Inl IndexOutOfRange"
    using checks [of cell7] same
    by (simp add: cell7_def cell3_def cells5_fields dim_mf_def size_mf_def)
  from a b c d initialised_cells5 cells5_fields(1) show ?thesis by simp
qed


text \<open>
  Claim C4. On an initialised map, for an entity \<open>e\<close> of the mesh and the dimension of
  the map whose index is below the size, \<^verbatim>\<open>set(e.index(), v)\<close> succeeds and \<^verbatim>\<open>get(e)\<close>
  on the resulting map returns \<open>v\<close>.
\<close>

theorem set_get_round_trip:
  assumes "initialised f" and "valid_entity f e"
  shows "\<exists>f'. set_mf f (entity_index e) v = Inr f' \<and> get f' e = Inr v"
proof -
  from assms(1) obtain vs where vs: "f_values f = Some vs" "length vs = unat (f_size f)"
    using initialised_values by blast
  from assms(2) have ok: "same_mesh (entity_mesh e) (f_mesh f)" "entity_dim e = f_dim f"
    "entity_index e < f_size f"
    by (simp_all add: valid_entity_def)
  let ?f' = "f\<lparr>f_values := Some (vs[unat (entity_index e) := v])\<rparr>"
  have written: "set_mf f (entity_index e) v = Inr ?f'"
    using vs(1) ok(3) by (rule set_mf_in_range)
  have "unat (entity_index e) < length vs"
    using ok(3) vs(2) by (simp add: word_less_nat_alt)
  then have "get ?f' e = Inr v"
    using ok by (simp add: get_def checked_entity_def dolfin_assert_def)
  with written show ?thesis by blast
qed

theorem set_get_round_trip_witness:
  "initialised cells5 \<and> valid_entity cells5 cell3
   \<and> (\<exists>f'. set_mf cells5 3 42 = Inr f' \<and> get f' cell3 = Inr 42)"
proof -
  have valid: "valid_entity cells5 cell3"
    by (simp add: valid_entity_def cells5_fields cell3_def same_mesh_def)
  have index: "entity_index cell3 = 3"
    by (simp add: cell3_def)
  from set_get_round_trip [OF initialised_cells5 valid, of 42] initialised_cells5 valid
  show ?thesis by (simp add: index)
qed

text \<open>
  Claim C7, as stated: \<^verbatim>\<open>set\<close> fails with IndexOutOfRange when the index is not below
  the size or when the map is uninitialised. On the empty map the index 0 is not below
  the size 0 and the map is uninitialised, yet the error is UseBeforeInit: the
  assertion on \<^verbatim>\<open>_values\<close> comes first.
\<close>

theorem set_uninitialised_counterexample:
  "\<not> (0::32 word) < size_mf (MeshFunction_empty :: (int, 32) MeshFunction)
   \<and> values_mf (MeshFunction_empty :: (int, 32) MeshFunction) = None
   \<and> set_mf (MeshFunction_empty :: (int, 32) MeshFunction) 0 1
       = Inl (UseBeforeInit, MeshFunction_empty)
   \<and> set_mf (MeshFunction_empty :: (int, 32) MeshFunction) 0 1
       \<noteq> Inl (IndexOutOfRange, MeshFunction_empty)"
  by (simp add: set_mf_def MeshFunction_empty_def size_mf_def values_mf_def)

text \<open>
  Claim C7, amended. \<^verbatim>\<open>set(index, value)\<close> stops with UseBeforeInit on an
  uninitialised map. On an initialised map it validates \<open>index < size()\<close>: it stops with
  IndexOutOfRange when the index is not below the size, and otherwise it overwrites
  exactly the slot at \<open>index\<close> with the value: that slot holds the value afterwards, the
  array keeps its length and every other slot keeps its content. A call that stops
  leaves the object as it was.
\<close>

theorem set_mf_validates_then_overwrites:
  "(f_values f = None \<longrightarrow> set_mf f i v = Inl (UseBeforeInit, f))
   \<and> (initialised f \<and> \<not> i < size_mf f \<longrightarrow> set_mf f i v = Inl (IndexOutOfRange, f))
   \<and> (initialised f \<and> i < size_mf f \<longrightarrow>
        (\<exists>vs vs'. f_values f = Some vs \<and> set_mf f i v = Inr (f\<lparr>f_values := Some vs'\<rparr>)
           \<and> length vs' = length vs \<and> vs' ! unat i = v
           \<and> (\<forall>k. k \<noteq> unat i \<longrightarrow> vs' ! k = vs ! k)))"
proof (intro conjI impI)
  assume "f_values f = None"
  then show "set_mf f i v = Inl (UseBeforeInit, f)"
    by (simp add: set_mf_def)
next
  assume "initialised f \<and> \<not> i < size_mf f"
  then show "set_mf f i v = Inl (IndexOutOfRange, f)"
    by (auto simp: set_mf_def initialised_def dolfin_assert_def size_mf_def
        split: option.splits)
next
  assume a: "initialised f \<and> i < size_mf f"
  then obtain vs where vs: "f_values f = Some vs" "length vs = unat (f_size f)"
    using initialised_values by blast
  from a have lt: "i < f_size f"
    by (simp add: size_mf_def)
  then have "unat i < length vs"
    using vs(2) by (simp add: word_less_nat_alt)
  then have "length (vs[unat i := v]) = length vs \<and> vs[unat i := v] ! unat i = v
             \<and> (\<forall>k. k \<noteq> unat i \<longrightarrow> vs[unat i := v] ! k = vs ! k)"
    by simp
  with vs(1) set_mf_in_range [OF vs(1) lt, of v]
  show "\<exists>vs vs'. f_values f = Some vs \<and> set_mf f i v = Inr (f\<lparr>f_values := Some vs'\<rparr>)
           \<and> length vs' = length vs \<and> vs' ! unat i = v
           \<and> (\<forall>k. k \<noteq> unat i \<longrightarrow> vs' ! k = vs ! k)"
    by blast
qed

theorem set_mf_validates_then_overwrites_witness:
  "f_values (MeshFunction_empty :: (int, 32) MeshFunction) = None
   \<and> set_mf (MeshFunction_empty :: (int, 32) MeshFunction) 0 1
       = Inl (UseBeforeInit, MeshFunction_empty)
   \<and> initialised cells5 \<and> \<not> 7 < size_mf cells5
   \<and> set_mf cells5 7 42 = Inl (IndexOutOfRange, cells5)
   \<and> 3 < size_mf cells5
   \<and> set_mf cells5 3 42 = Inr (cells5\<lparr>f_values := Some [0, 0, 0, 42, 0]\<rparr>)"
proof -
  have null: "f_values (MeshFunction_empty :: (int, 32) MeshFunction) = None"
    by (simp add: MeshFunction_empty_def)
  have out: "\<not> 7 < size_mf cells5" and inside: "3 < size_mf cells5"
    by (simp_all add: size_mf_def cells5_fields)
  have a: "set_mf (MeshFunction_empty :: (int, 32) MeshFunction) 0 1
             = Inl (UseBeforeInit, MeshFunction_empty)"
    using set_mf_validates_then_overwrites
      [of "MeshFunction_empty :: (int, 32) MeshFunction" 0 1] null
    by simp
  have b: "set_mf cells5 7 42 = Inl (IndexOutOfRange, cells5)"
    using set_mf_validates_then_overwrites [of cells5 7 42] initialised_cells5 out
    by simp
  have c: "set_mf cells5 3 42 = Inr (cells5\<lparr>f_values := Some [0, 0, 0, 42, 0]\<rparr>)"
    using inside by (simp add: set_mf_def dolfin_assert_def cells5_fields size_mf_def)
  from null a initialised_cells5 out b inside c show ?thesis by simp
qed

text \<open>
  Claim C10. On an initialised map, \<^verbatim>\<open>set(i, v)\<close> with \<open>i\<close> below the size succeeds,
  leaves the mesh pointer, the dimension and the size as they were, and leaves every
  slot \<open>j \<noteq> i\<close> with its previous value; \<^verbatim>\<open>get\<close> on an entity of another index
  returns what it returned before.
\<close>

theorem set_mf_frame:
  assumes "initialised f" and "i < size_mf f"
  shows "\<exists>f'. set_mf f i v = Inr f'
           \<and> f_mesh f' = f_mesh f \<and> dim_mf f' = dim_mf f \<and> size_mf f' = size_mf f
           \<and> (\<forall>j. j \<noteq> i \<longrightarrow>
                 map_option (\<lambda>vs. vs ! unat j) (values_mf f')
                   = map_option (\<lambda>vs. vs ! unat j) (values_mf f))
           \<and> (\<forall>e. entity_index e \<noteq> i \<longrightarrow> get f' e = get f e)"
proof -
  from assms(1) obtain vs where vs: "f_values f = Some vs" "length vs = unat (f_size f)"
    using initialised_values by blast
  from assms(2) have lt: "i < f_size f"
    by (simp add: size_mf_def)
  let ?f' = "f\<lparr>f_values := Some (vs[unat i := v])\<rparr>"
  have written: "set_mf f i v = Inr ?f'"
    using vs(1) lt by (rule set_mf_in_range)
  have fields: "f_mesh ?f' = f_mesh f \<and> dim_mf ?f' = dim_mf f \<and> size_mf ?f' = size_mf f"
    by (simp add: dim_mf_def size_mf_def)
  have slots: "map_option (\<lambda>vs. vs ! unat j) (values_mf ?f')
                 = map_option (\<lambda>vs. vs ! unat j) (values_mf f)" if "j \<noteq> i" for j
    using unat_neq [OF that] vs(1) by (simp add: values_mf_def)
  have reads: "get ?f' e = get f e" if "entity_index e \<noteq> i" for e
    using unat_neq [OF that] vs(1)
    by (simp add: get_def checked_entity_def dolfin_assert_def)
  from written fields slots reads show ?thesis
    by blast
qed

theorem set_mf_frame_witness:
  "initialised cells5 \<and> 3 < size_mf cells5
   \<and> (\<exists>f'. set_mf cells5 3 42 = Inr f'
         \<and> f_mesh f' = Some mesh5 \<and> dim_mf f' = 2 \<and> size_mf f' = 5
         \<and> map_option (\<lambda>vs. vs ! unat (2::32 word)) (values_mf f') = Some 0)"
proof -
  have inside: "3 < size_mf cells5"
    by (simp add: size_mf_def cells5_fields)
  from set_mf_frame [OF initialised_cells5 inside, of 42]
  obtain f' where f': "set_mf cells5 3 42 = Inr f'" "f_mesh f' = f_mesh cells5"
    "dim_mf f' = dim_mf cells5" "size_mf f' = size_mf cells5"
    "\<forall>j::32 word. j \<noteq> 3 \<longrightarrow> map_option (\<lambda>vs. vs ! unat j) (values_mf f')
            = map_option (\<lambda>vs. vs ! unat j) (values_mf cells5)"
    by blast
  from f'(5) [rule_format, of 2] have "map_option (\<lambda>vs. vs ! unat (2::32 word)) (values_mf f')
                     = map_option (\<lambda>vs. vs ! unat (2::32 word)) (values_mf cells5)"
    by simp
  then have "map_option (\<lambda>vs. vs ! unat (2::32 word)) (values_mf f') = Some 0"
    by (simp add: values_mf_def cells5_fields)
  with f'(1-4) initialised_cells5 inside show ?thesis
    by (simp add: cells5_fields dim_mf_def size_mf_def)
qed


section \<open>Re-initialisation\<close>

text \<open>
  Claim C3, as stated: after \<^verbatim>\<open>init(mesh, cellDim)\<close> on a mesh with 5 cells,
  \<^verbatim>\<open>set(3, X)\<close> and a second \<^verbatim>\<open>init(mesh, cellDim)\<close>, \<^verbatim>\<open>get\<close> on the cell of
  index 3 does not return \<open>X\<close>. It fails for an element type whose default constructor
  gives 7 and \<open>X = 7\<close>: the new array holds 7 in every slot, and \<^verbatim>\<open>get\<close> returns 7.
\<close>

theorem reinit_counterexample:
  "size_mf (init_mesh_dim (fill 7) (MeshFunction_empty :: (int, 32) MeshFunction) mesh5 2) = 5
   \<and> reinit_scenario (fill 7) (fill 7) mesh5 2 3 (7::int) cell3 = Inr 7"
  by (simp add: reinit_scenario_def init_mesh_dim_def init_mesh_dim_size_def size_mf_def
      set_mf_def get_def checked_entity_def dolfin_assert_def same_mesh_def
      MeshFunction_empty_def mesh5_def cell3_def new_array_def fill_def)

text \<open>
  Claim C3, amended. Re-initialising a map replaces its array by a newly allocated one
  and copies no value over: after \<^verbatim>\<open>init(mesh, dim)\<close>, \<^verbatim>\<open>set(index, X)\<close> with the
  index below the entity count, and a second \<^verbatim>\<open>init(mesh, dim)\<close>, \<^verbatim>\<open>get\<close> on the
  entity of that index returns what the second allocation left in the slot, whatever
  \<open>X\<close> was. (On the mesh with 5 cells and index 3: the default-initialised content of
  slot 3, which may or may not equal \<open>X\<close>.) In general the array after \<^verbatim>\<open>init\<close> is the
  new one, whatever the map held before.
\<close>

theorem reinit_reads_fresh_storage:
  fixes m :: "'w::len Mesh" and fresh1 :: "nat \<Rightarrow> 'a"
  assumes "index < Mesh_size m d"
    and "address (entity_mesh e) = address m"
    and "entity_dim e = d"
    and "entity_index e = index"
  shows "reinit_scenario fresh1 fresh2 m d index x e = Inr (fresh2 (unat index))
         \<and> values_mf (init_mesh_dim fresh f m d) = Some (new_array fresh (Mesh_size m d))"
proof -
  let ?f1 = "init_mesh_dim fresh1 (MeshFunction_empty :: ('a, 'w) MeshFunction) m d"
  have f1: "f_values ?f1 = Some (new_array fresh1 (Mesh_size m d))"
    "f_size ?f1 = Mesh_size m d"
    by (simp_all add: init_mesh_dim_def init_mesh_dim_size_def)
  let ?f2 = "?f1\<lparr>f_values := Some ((new_array fresh1 (Mesh_size m d))[unat index := x])\<rparr>"
  have written: "set_mf ?f1 index x = Inr ?f2"
    using f1 assms(1) by (simp add: set_mf_in_range)
  have lt: "unat index < unat (Mesh_size m d)"
    using assms(1) by (simp add: word_less_nat_alt)
  have "get (init_mesh_dim fresh2 ?f2 m d) e = Inr (fresh2 (unat index))"
    using assms lt
    by (simp add: get_def checked_entity_def dolfin_assert_def same_mesh_def
        init_mesh_dim_def init_mesh_dim_size_def nth_new_array)
  with written have "reinit_scenario fresh1 fresh2 m d index x e = Inr (fresh2 (unat index))"
    by (simp add: reinit_scenario_def)
  moreover have "values_mf (init_mesh_dim fresh f m d) = Some (new_array fresh (Mesh_size m d))"
    by (simp add: values_mf_def init_mesh_dim_def init_mesh_dim_size_def)
  ultimately show ?thesis by simp
qed

theorem reinit_reads_fresh_storage_witness:
  "(3::32 word) < Mesh_size mesh5 2
   \<and> address (entity_mesh cell3) = address mesh5
   \<and> entity_dim cell3 = 2 \<and> entity_index cell3 = 3
   \<and> reinit_scenario (fill 0) (fill 9) mesh5 2 3 (7::int) cell3 = Inr 9"
proof -
  have h: "(3::32 word) < Mesh_size mesh5 2" "address (entity_mesh cell3) = address mesh5"
    "entity_dim cell3 = 2" "entity_index cell3 = 3"
    by (simp_all add: mesh5_def cell3_def)
  from reinit_reads_fresh_storage [OF h, of "fill 0" "fill 9" 7, THEN conjunct1] h
  show ?thesis by (simp add: fill_def)
qed

end
